theory Spec2Isabelle
  imports Main "HOL-Library.Word"
begin

text \<open>
  A model of the DNS forwarder mos-chinadns: the dispatcher with its answer cache
  (\<^verbatim>\<open>ServeDNS\<close>, \<^verbatim>\<open>tryGetFromCache\<close>, \<^verbatim>\<open>tryAddToCache\<close>), the race between the
  upstreams (\<^verbatim>\<open>Dispatch\<close>), the loader of domain lists (\<^verbatim>\<open>NewListFormReader\<close>) and
  the start of the listeners (\<^verbatim>\<open>StartServer\<close>). Definitions come first, their
  properties after.
\<close>

section \<open>DNS messages\<close>

text \<open>
  The dispatcher works on \<^verbatim>\<open>*dns.Msg\<close> values of the library github.com/miekg/dns.
  The records below carry the fields of \<^verbatim>\<open>dns.MsgHdr\<close>, \<^verbatim>\<open>dns.Msg\<close>,
  \<^verbatim>\<open>dns.Question\<close> and \<^verbatim>\<open>dns.RR_Header\<close>. The field \<^verbatim>\<open>Id\<close> is called
  \<open>MsgHdr_Id\<close> here, \<^verbatim>\<open>Name\<close> of a question \<open>Q_Name\<close>. A resource record keeps its
  header and, for an OPT pseudo record, the list of its EDNS0 options (code and payload);
  every other record body is an opaque string.
\<close>

type_synonym uint16 = "16 word"
type_synonym uint32 = "32 word"

record dns_Question =
  Q_Name :: string
  Qtype :: uint16
  Qclass :: uint16

datatype rdata = OPT "(uint16 \<times> string) list" | Opaque string

record RR =
  Hdr_Name :: string
  Rrtype :: uint16
  Class :: uint16
  Ttl :: uint32
  Rdata :: rdata

record Msg =
  MsgHdr_Id :: uint16
  Response :: bool
  Opcode :: int
  Authoritative :: bool
  Truncated :: bool
  RecursionDesired :: bool
  RecursionAvailable :: bool
  Zero :: bool
  AuthenticatedData :: bool
  CheckingDisabled :: bool
  Rcode :: int
  Compress :: bool
  Question :: "dns_Question list"
  Answer :: "RR list"
  Ns :: "RR list"
  Extra :: "RR list"

definition RcodeSuccess :: int where
  "RcodeSuccess = 0"

definition RcodeServerFailure :: int where
  "RcodeServerFailure = 2"

definition OpcodeQuery :: int where
  "OpcodeQuery = 0"

definition EDNS0SUBNET :: uint16 where
  "EDNS0SUBNET = 8"

text \<open>\<^verbatim>\<open>new(dns.Msg)\<close>: every field has its zero value.\<close>

definition new_Msg :: Msg where
  "new_Msg = \<lparr>MsgHdr_Id = 0, Response = False, Opcode = 0, Authoritative = False,
     Truncated = False, RecursionDesired = False, RecursionAvailable = False, Zero = False,
     AuthenticatedData = False, CheckingDisabled = False, Rcode = 0, Compress = False,
     Question = [], Answer = [], Ns = [], Extra = []\<rparr>"

text \<open>
  \<^verbatim>\<open>(*dns.Msg).SetReply\<close> of the library: the reply takes the request's id, opcode and,
  for a standard query, its RD and CD bits; the rcode is reset; the question section
  becomes the request's first question when it has one.
\<close>

definition SetReply :: "Msg \<Rightarrow> Msg \<Rightarrow> Msg" where
  "SetReply m request =
     (let m1 = m\<lparr>MsgHdr_Id := MsgHdr_Id request, Response := True, Opcode := Opcode request\<rparr>;
          m2 = (if Opcode m1 = OpcodeQuery
                then m1\<lparr>RecursionDesired := RecursionDesired request,
                        CheckingDisabled := CheckingDisabled request\<rparr>
                else m1);
          m3 = m2\<lparr>Rcode := RcodeSuccess\<rparr>
      in if length (Question request) > 0 then m3\<lparr>Question := [Question request ! 0]\<rparr> else m3)"

subsection \<open>Helpers of the repository that are not among the source files\<close>

text \<open>
  Modelled from the spec: \<^verbatim>\<open>checkMsgHasECS\<close> (the spec's \<^verbatim>\<open>has_ecs\<close>) is missing from
  the source files. The spec: "true if OPT record carries an ECS option".
\<close>

definition rr_has_ECS :: "RR \<Rightarrow> bool" where
  "rr_has_ECS rr = (case Rdata rr of OPT opts \<Rightarrow> EDNS0SUBNET \<in> set (map fst opts) | Opaque _ \<Rightarrow> False)"

definition checkMsgHasECS :: "Msg \<Rightarrow> bool" where
  "checkMsgHasECS m = list_ex rr_has_ECS (Extra m)"

text \<open>
  Modelled from the spec: \<^verbatim>\<open>utils.GetAnswerMinTTL\<close> (the spec's \<^verbatim>\<open>min_answer_ttl\<close>) is
  missing from the source files. The spec: "minimum TTL across non-empty Answer section;
  returns 0 if section empty".
\<close>

definition GetAnswerMinTTL :: "Msg \<Rightarrow> uint32" where
  "GetAnswerMinTTL m = (case Answer m of [] \<Rightarrow> 0 | rr # rrs \<Rightarrow> fold min (map Ttl rrs) (Ttl rr))"

text \<open>
  Modelled from the spec: \<^verbatim>\<open>utils.SetAnswerTTL\<close> (the spec's \<^verbatim>\<open>set_ttl\<close>) is missing
  from the source files. The spec: "overwrite TTL of every RR in
  Answer/Authority/Additional to ttl seconds".
\<close>

definition SetAnswerTTL :: "Msg \<Rightarrow> uint32 \<Rightarrow> Msg" where
  "SetAnswerTTL m ttl =
     m\<lparr>Answer := map (\<lambda>rr. rr\<lparr>Ttl := ttl\<rparr>) (Answer m),
       Ns := map (\<lambda>rr. rr\<lparr>Ttl := ttl\<rparr>) (Ns m),
       Extra := map (\<lambda>rr. rr\<lparr>Ttl := ttl\<rparr>) (Extra m)\<rparr>"

section \<open>The answer cache\<close>

text \<open>
  Time is an instant or a duration in nanoseconds, as \<^verbatim>\<open>time.Time\<close> and
  \<^verbatim>\<open>time.Duration\<close> count it.
\<close>

type_synonym time = int

definition Second :: time where
  "Second = 1000000000"

text \<open>
  Modelled from the spec: the package \<^verbatim>\<open>dispatcher/cache\<close> (\<^verbatim>\<open>cache.New\<close>,
  \<^verbatim>\<open>Get\<close>, \<^verbatim>\<open>Add\<close>) is missing from the source files. The spec: a bounded store
  from question keys to entries with an absolute expiry, of a capacity fixed at
  construction; the key is the triple of the lower-cased name, the type and the class;
  "on add, evict expired entries first; if still full, evict
  approximately-least-recently-inserted"; "on get, return a copy of the entry bytes if not
  expired, else return miss and evict". The entries are kept oldest first.
\<close>

type_synonym QuestionKey = "string \<times> uint16 \<times> uint16"

definition ToLower :: "char \<Rightarrow> char" where
  "ToLower c = (if (65::nat) \<le> of_char c \<and> of_char c \<le> (90::nat)
                then char_of (of_char c + (32::nat)) else c)"

definition question_key :: "dns_Question \<Rightarrow> QuestionKey" where
  "question_key q = (map ToLower (Q_Name q), Qtype q, Qclass q)"

record Cache =
  capacity :: nat
  entries :: "(QuestionKey \<times> Msg \<times> time) list"

definition Cache_New :: "nat \<Rightarrow> Cache" where
  "Cache_New n = \<lparr>capacity = n, entries = []\<rparr>"

definition Cache_Get :: "Cache \<Rightarrow> time \<Rightarrow> dns_Question \<Rightarrow> Msg option \<times> Cache" where
  "Cache_Get c now q =
     (case map_of (entries c) (question_key q) of
        None \<Rightarrow> (None, c)
      | Some (r, expireAt) \<Rightarrow>
          if now < expireAt then (Some r, c)
          else (None, c\<lparr>entries := filter (\<lambda>e. fst e \<noteq> question_key q) (entries c)\<rparr>))"

definition Cache_Add :: "Cache \<Rightarrow> time \<Rightarrow> dns_Question \<Rightarrow> Msg \<Rightarrow> time \<Rightarrow> Cache" where
  "Cache_Add c now q r expireAt =
     (let live = filter (\<lambda>e. now < snd (snd e) \<and> fst e \<noteq> question_key q) (entries c);
          kept = drop (Suc (length live) - capacity c) live
      in c\<lparr>entries := kept @ [(question_key q, r, expireAt)]\<rparr>)"

section \<open>The dispatcher with a cache (dispatcher/dispatcher.go)\<close>

text \<open>
  Of the \<^verbatim>\<open>Dispatcher\<close> struct the model keeps the cache pointer (\<open>None\<close> is the nil
  pointer, which \<^verbatim>\<open>InitDispatcher\<close> leaves when the configured size is 0) and
  \<^verbatim>\<open>minTTL\<close>. A Go \<^verbatim>\<open>error\<close> is a \<open>go_error option\<close>, \<open>None\<close> being nil.
\<close>

record Dispatcher =
  cache :: "Cache option"
  minTTL :: uint32

datatype go_error =
    ErrUpstreamsFailed
  | Canceled
  | DeadlineExceeded
  | Errorf string "go_error option"
  | ErrInvalidDomain string nat
  | OtherError string

datatype panic = IndexOutOfRange

text \<open>
  \<^verbatim>\<open>tryGetFromCache\<close>, called only with a non-nil cache. The index expression
  \<^verbatim>\<open>q.Question[0]\<close> panics on an empty question section. The cache is returned too,
  since a lookup may evict.
\<close>

definition tryGetFromCache :: "Cache \<Rightarrow> time \<Rightarrow> Msg \<Rightarrow> panic + (Msg option \<times> Cache)" where
  "tryGetFromCache c now q =
     (if length (Question q) = 1 \<or> checkMsgHasECS q = True then Inr (None, c)
      else (case Question q of
              [] \<Rightarrow> Inl IndexOutOfRange
            | q0 # _ \<Rightarrow>
                (case Cache_Get c now q0 of
                   (Some r, c') \<Rightarrow> Inr (Some (r\<lparr>MsgHdr_Id := MsgHdr_Id q\<rparr>), c')
                 | (None, c') \<Rightarrow> Inr (None, c'))))"

text \<open>\<^verbatim>\<open>tryAddToCache\<close>; \<open>now\<close> is what \<^verbatim>\<open>time.Now()\<close> returns there.\<close>

definition tryAddToCache :: "Cache \<Rightarrow> time \<Rightarrow> Msg \<Rightarrow> time \<Rightarrow> Cache" where
  "tryAddToCache c now r ttl =
     (if length (Question r) = 1 \<and> Rcode r = RcodeSuccess
      then (let expireAt = now + ttl in Cache_Add c now (Question r ! 0) r expireAt)
      else c)"

text \<open>
  \<^verbatim>\<open>ServeDNS\<close>. The call \<^verbatim>\<open>d.dispatch(ctx, q)\<close> is the parameter \<open>dispatch\<close>: it
  yields an error or a non-nil reply. \<open>t0\<close> is the clock when the cache is probed,
  \<open>t1\<close> the clock when the reply is added. The result is a panic, or the returned pair
  \<^verbatim>\<open>(r, err)\<close> with the dispatcher as the call leaves it.
\<close>

definition cache_probe :: "Dispatcher \<Rightarrow> time \<Rightarrow> Msg \<Rightarrow> panic + (Msg option \<times> Dispatcher)" where
  "cache_probe d t0 q =
     (case cache d of
        None \<Rightarrow> Inr (None, d)
      | Some c \<Rightarrow>
          (case tryGetFromCache c t0 q of
             Inl p \<Rightarrow> Inl p
           | Inr (r, c') \<Rightarrow> Inr (r, d\<lparr>cache := Some c'\<rparr>)))"

definition ServeDNS ::
  "(Msg \<Rightarrow> go_error + Msg) \<Rightarrow> time \<Rightarrow> time \<Rightarrow> Dispatcher \<Rightarrow> Msg
     \<Rightarrow> panic + ((Msg option \<times> go_error option) \<times> Dispatcher)" where
  "ServeDNS dispatch t0 t1 d q =
     (case cache_probe d t0 q of
        Inl p \<Rightarrow> Inl p
      | Inr (Some r, d1) \<Rightarrow> Inr ((Some r, None), d1)
      | Inr (None, d1) \<Rightarrow>
          (case dispatch q of
             Inl err \<Rightarrow> Inr ((None, Some err), d1)
           | Inr r \<Rightarrow>
               (let ttl = GetAnswerMinTTL r;
                    ttl = (if ttl < minTTL d1 then minTTL d1 else ttl);
                    r = SetAnswerTTL r ttl;
                    d2 = (case cache d1 of
                            None \<Rightarrow> d1
                          | Some c \<Rightarrow> d1\<lparr>cache := Some (tryAddToCache c t1 r (uint ttl * Second))\<rparr>)
                in Inr ((Some r, None), d2))))"

section \<open>Dispatch: the race between the upstreams (dispatcher/domainlist/load_helper.go)\<close>

text \<open>
  \<^verbatim>\<open>Dispatch\<close> starts one goroutine per upstream entry and one notifier goroutine, and
  then blocks in a \<^verbatim>\<open>select\<close>. The goroutines are modelled as an interleaving of
  atomic steps over a shared state; \<^verbatim>\<open>dispatch\<close> of dispatcher/dispatcher.go runs the
  same protocol on channels taken from a pool, which notifies by a non-blocking send where
  this one closes the channel.

  \<^item> \<open>ctx\<close>: the context is live, past its deadline or cancelled by the caller;
    \<^verbatim>\<open>ctx.Err()\<close> is \<open>ctx_Err\<close>.
  \<^item> \<open>tasks\<close>: one goroutine per upstream. It is inside \<^verbatim>\<open>entry.Exchange\<close>
    (\<open>Exchanging\<close>), or \<^verbatim>\<open>Exchange\<close> has returned a non-nil reply and a nil error
    and the goroutine stands before its non-blocking send (\<open>Accepted r\<close>), or it has
    returned and \<^verbatim>\<open>upstreamWG.Done()\<close> has run (\<open>Exited\<close>).
  \<^item> \<open>resChan\<close>: the buffer, of capacity 1, of the result channel.
  \<^item> \<open>notifier\<close>: the notifier goroutine is in \<^verbatim>\<open>upstreamWG.Wait()\<close>, has come back
    from it, has read \<^verbatim>\<open>len(resChan) == 0\<close> and stands before the \<^verbatim>\<open>close\<close>, or is
    done.
  \<^item> \<open>failedChan_closed\<close>: \<^verbatim>\<open>upstreamFailedNotificationChan\<close> is closed.
  \<^item> \<open>caller\<close>: the calling goroutine is blocked in the \<^verbatim>\<open>select\<close> or has returned
    the pair \<^verbatim>\<open>(reply, err)\<close>.
  \<^item> \<open>sent\<close>: a history variable, the replies whose send on \<open>resChan\<close> succeeded.
\<close>

datatype ctx_state = Live | Expired | Cancelled

definition ctx_Err :: "ctx_state \<Rightarrow> go_error option" where
  "ctx_Err c = (case c of Live \<Rightarrow> None | Expired \<Rightarrow> Some DeadlineExceeded | Cancelled \<Rightarrow> Some Canceled)"

datatype task = Exchanging | Accepted Msg | Exited

datatype notifier = Waiting | Woken | Closing | Finished

datatype caller = Selecting | Returned "Msg option \<times> go_error option"

record dispatch_state =
  ctx :: ctx_state
  tasks :: "task list"
  resChan :: "Msg option"
  notifier :: notifier
  failedChan_closed :: bool
  caller :: caller
  sent :: "Msg list"

definition Dispatch_init :: "nat \<Rightarrow> dispatch_state" where
  "Dispatch_init n = \<lparr>ctx = Live, tasks = replicate n Exchanging, resChan = None,
     notifier = Waiting, failedChan_closed = False, caller = Selecting, sent = []\<rparr>"

definition all_exited :: "dispatch_state \<Rightarrow> bool" where
  "all_exited s = list_all (\<lambda>t. t = Exited) (tasks s)"

text \<open>
  The steps. An \<^verbatim>\<open>Exchange\<close> that returns an error or a nil reply ends its goroutine
  (\<open>exchange_fails\<close>); the send of an accepted reply succeeds on an empty buffer
  (\<open>publish\<close>) and is dropped on a full one (\<open>drop\<close>). A \<^verbatim>\<open>select\<close> with several
  ready cases takes any of them.
\<close>

inductive Dispatch_step :: "dispatch_state \<Rightarrow> dispatch_state \<Rightarrow> bool" where
  deadline: "ctx s = Live \<Longrightarrow> Dispatch_step s (s\<lparr>ctx := Expired\<rparr>)"
| cancel: "ctx s = Live \<Longrightarrow> Dispatch_step s (s\<lparr>ctx := Cancelled\<rparr>)"
| exchange_fails:
    "i < length (tasks s) \<Longrightarrow> tasks s ! i = Exchanging \<Longrightarrow>
     Dispatch_step s (s\<lparr>tasks := (tasks s)[i := Exited]\<rparr>)"
| exchange_accepts:
    "i < length (tasks s) \<Longrightarrow> tasks s ! i = Exchanging \<Longrightarrow>
     Dispatch_step s (s\<lparr>tasks := (tasks s)[i := Accepted r]\<rparr>)"
| publish:
    "i < length (tasks s) \<Longrightarrow> tasks s ! i = Accepted r \<Longrightarrow> resChan s = None \<Longrightarrow>
     Dispatch_step s (s\<lparr>tasks := (tasks s)[i := Exited], resChan := Some r, sent := sent s @ [r]\<rparr>)"
| drop:
    "i < length (tasks s) \<Longrightarrow> tasks s ! i = Accepted r \<Longrightarrow> resChan s = Some m \<Longrightarrow>
     Dispatch_step s (s\<lparr>tasks := (tasks s)[i := Exited]\<rparr>)"
| wait_returns:
    "notifier s = Waiting \<Longrightarrow> all_exited s \<Longrightarrow> Dispatch_step s (s\<lparr>notifier := Woken\<rparr>)"
| len_zero:
    "notifier s = Woken \<Longrightarrow> resChan s = None \<Longrightarrow> Dispatch_step s (s\<lparr>notifier := Closing\<rparr>)"
| len_nonzero:
    "notifier s = Woken \<Longrightarrow> resChan s = Some m \<Longrightarrow> Dispatch_step s (s\<lparr>notifier := Finished\<rparr>)"
| close:
    "notifier s = Closing \<Longrightarrow>
     Dispatch_step s (s\<lparr>notifier := Finished, failedChan_closed := True\<rparr>)"
| select_result:
    "caller s = Selecting \<Longrightarrow> resChan s = Some m \<Longrightarrow>
     Dispatch_step s (s\<lparr>resChan := None, caller := Returned (Some m, None)\<rparr>)"
| select_failed:
    "caller s = Selecting \<Longrightarrow> failedChan_closed s \<Longrightarrow>
     Dispatch_step s (s\<lparr>caller := Returned (None, Some ErrUpstreamsFailed)\<rparr>)"
| select_ctx:
    "caller s = Selecting \<Longrightarrow> ctx_Err (ctx s) = Some e \<Longrightarrow>
     Dispatch_step s (s\<lparr>caller := Returned (None, Some e)\<rparr>)"

inductive Dispatch_run :: "dispatch_state \<Rightarrow> dispatch_state \<Rightarrow> bool" where
  run_refl: "Dispatch_run s s"
| run_step: "Dispatch_run s t \<Longrightarrow> Dispatch_step t u \<Longrightarrow> Dispatch_run s u"

section \<open>ServeDNS over Dispatch (dispatcher/domainlist/load_helper.go)\<close>

text \<open>
  \<^verbatim>\<open>errors.Is\<close> follows the chain of errors wrapped by \<^verbatim>\<open>fmt.Errorf\<close> with
  \<^verbatim>\<open>%w\<close>. The second \<^verbatim>\<open>ServeDNS\<close> of the repository, \<open>ServeDNS_v2\<close> here, takes
  the pair that \<^verbatim>\<open>Dispatch\<close> returned. The ipset handler works on the kernel's sets and
  its error is only logged; it is left out.
\<close>

fun errors_Is :: "go_error \<Rightarrow> go_error \<Rightarrow> bool" where
  "errors_Is (Errorf msg (Some w)) target = (Errorf msg (Some w) = target \<or> errors_Is w target)"
| "errors_Is e target = (e = target)"

definition ServeDNS_v2 :: "Msg \<Rightarrow> Msg option \<times> go_error option \<Rightarrow> Msg option \<times> go_error option" where
  "ServeDNS_v2 q res =
     (case res of
        (r, Some err) \<Rightarrow>
          (if errors_Is err ErrUpstreamsFailed
           then (Some ((SetReply new_Msg q)\<lparr>Rcode := RcodeServerFailure\<rparr>), Some err)
           else (r, Some err))
      | (r, None) \<Rightarrow> (r, None))"

text \<open>The invariant of the reachable states of \<open>Dispatch_step\<close>.\<close>

definition Dispatch_inv :: "dispatch_state \<Rightarrow> bool" where
  "Dispatch_inv s \<longleftrightarrow>
     (\<forall>m. resChan s = Some m \<longrightarrow> m \<in> set (sent s)) \<and>
     (caller s = Selecting \<and> sent s \<noteq> [] \<longrightarrow> resChan s \<noteq> None) \<and>
     (notifier s \<noteq> Waiting \<longrightarrow> all_exited s) \<and>
     (notifier s = Closing \<longrightarrow> resChan s = None \<and> \<not> failedChan_closed s) \<and>
     (failedChan_closed s \<longrightarrow> notifier s = Finished \<and> resChan s = None) \<and>
     (notifier s = Finished \<longrightarrow> failedChan_closed s \<or> sent s \<noteq> []) \<and>
     (\<forall>r e. caller s = Returned (r, Some e) \<longrightarrow> r = None \<and> (e = ErrUpstreamsFailed \<longrightarrow> sent s = [] \<and> failedChan_closed s)) \<and>
     (\<forall>r. caller s = Returned (r, None) \<longrightarrow> (\<exists>m \<in> set (sent s). r = Some m))"



section \<open>Loading a domain list (dispatcher/domainlist/load_helper.go)\<close>

text \<open>
  Strings are byte strings, as in Go. \<^verbatim>\<open>strings.TrimSpace\<close> removes the leading and the
  trailing white space of Unicode: \<open>space_encodings\<close> lists the UTF-8 encodings of the
  code points that \<^verbatim>\<open>unicode.IsSpace\<close> accepts. \<^verbatim>\<open>strings.HasPrefix\<close> is \<open>HasPrefix\<close>.
\<close>

definition space_encodings :: "nat list list" where
  "space_encodings =
     [[0x09], [0x0A], [0x0B], [0x0C], [0x0D], [0x20],
      [0xC2, 0x85], [0xC2, 0xA0], [0xE1, 0x9A, 0x80],
      [0xE2, 0x80, 0x80], [0xE2, 0x80, 0x81], [0xE2, 0x80, 0x82], [0xE2, 0x80, 0x83],
      [0xE2, 0x80, 0x84], [0xE2, 0x80, 0x85], [0xE2, 0x80, 0x86], [0xE2, 0x80, 0x87],
      [0xE2, 0x80, 0x88], [0xE2, 0x80, 0x89], [0xE2, 0x80, 0x8A],
      [0xE2, 0x80, 0xA8], [0xE2, 0x80, 0xA9], [0xE2, 0x80, 0xAF], [0xE2, 0x81, 0x9F],
      [0xE3, 0x80, 0x80]]"

definition leading_space :: "string \<Rightarrow> nat" where
  "leading_space s =
     (case filter (\<lambda>e. take (length e) (map of_char s) = e) space_encodings of
        [] \<Rightarrow> 0 | e # _ \<Rightarrow> length e)"

definition trailing_space :: "string \<Rightarrow> nat" where
  "trailing_space s =
     (case filter (\<lambda>e. length e \<le> length s \<and> drop (length s - length e) (map of_char s) = e) space_encodings of
        [] \<Rightarrow> 0 | e # _ \<Rightarrow> length e)"

fun TrimLeft :: "string \<Rightarrow> string" where
  "TrimLeft [] = []"
| "TrimLeft (c # cs) =
     (if leading_space (c # cs) = 0 then c # cs else TrimLeft (drop (leading_space (c # cs) - 1) cs))"

fun TrimRight_rev :: "string \<Rightarrow> string" where
  "TrimRight_rev [] = []"
| "TrimRight_rev (c # cs) =
     (if trailing_space (rev (c # cs)) = 0 then c # cs
      else TrimRight_rev (drop (trailing_space (rev (c # cs)) - 1) cs))"

definition TrimSpace :: "string \<Rightarrow> string" where
  "TrimSpace s = rev (TrimRight_rev (rev (TrimLeft s)))"

definition HasPrefix :: "string \<Rightarrow> string \<Rightarrow> bool" where
  "HasPrefix s p = (length s \<ge> length p \<and> take (length p) s = p)"

text \<open>
  Modelled from the spec: the type \<^verbatim>\<open>List\<close> of the package \<^verbatim>\<open>domainlist\<close>, with
  \<^verbatim>\<open>New\<close> and \<^verbatim>\<open>Add\<close>, is missing from the source files. The spec: a "set of FQDNs".
  The model keeps the names that were added, in the order of the calls.
\<close>

type_synonym List = "string list"

definition List_New :: List where
  "List_New = []"

definition List_Add :: "List \<Rightarrow> string \<Rightarrow> List" where
  "List_Add l fqdn = l @ [fqdn]"

text \<open>
  \<^verbatim>\<open>NewListFormReader\<close>. The reader is given by the lines that \<^verbatim>\<open>bufio.Scanner\<close>
  yields. \<^verbatim>\<open>dns.Fqdn\<close> and \<^verbatim>\<open>dns.IsDomainName\<close> belong to the library
  github.com/miekg/dns and are parameters. The result is the returned error, or the list
  together with the warnings logged (the line and its number).
\<close>

fun NewListFormReader_loop ::
  "(string \<Rightarrow> string) \<Rightarrow> (string \<Rightarrow> bool) \<Rightarrow> bool \<Rightarrow> nat \<Rightarrow> List \<Rightarrow> (string \<times> nat) list
     \<Rightarrow> string list \<Rightarrow> go_error + (List \<times> (string \<times> nat) list)" where
  "NewListFormReader_loop Fqdn IsDomainName continueOnInvalidString lineCounter l warned [] =
     Inr (l, warned)"
| "NewListFormReader_loop Fqdn IsDomainName continueOnInvalidString lineCounter l warned (text # rest) =
     (let lineCounter = lineCounter + 1;
          line = TrimSpace text
      in if length line = 0 \<or> HasPrefix line ''#''
         then NewListFormReader_loop Fqdn IsDomainName continueOnInvalidString lineCounter l warned rest
         else (let fqdn = Fqdn line
               in if \<not> IsDomainName fqdn \<and> \<not> continueOnInvalidString
                  then Inl (ErrInvalidDomain line lineCounter)
                  else (let warned = (if \<not> IsDomainName fqdn then warned @ [(line, lineCounter)]
                                      else warned)
                        in NewListFormReader_loop Fqdn IsDomainName continueOnInvalidString lineCounter
                             (List_Add l fqdn) warned rest)))"

definition NewListFormReader ::
  "(string \<Rightarrow> string) \<Rightarrow> (string \<Rightarrow> bool) \<Rightarrow> string list \<Rightarrow> bool
     \<Rightarrow> go_error + (List \<times> (string \<times> nat) list)" where
  "NewListFormReader Fqdn IsDomainName lines continueOnInvalidString =
     NewListFormReader_loop Fqdn IsDomainName continueOnInvalidString 0 List_New [] lines"

text \<open>A line that the loop skips: empty after trimming, or a comment.\<close>

definition ignored_line :: "string \<Rightarrow> bool" where
  "ignored_line text = (length (TrimSpace text) = 0 \<or> HasPrefix (TrimSpace text) ''#'')"

text \<open>
  Stand-ins for the two library functions, for concrete runs: the name gets a final dot
  unless it has one, and a name is valid unless it is empty or has an empty label.
\<close>

definition example_Fqdn :: "string \<Rightarrow> string" where
  "example_Fqdn s = (if s \<noteq> [] \<and> last s = CHR ''.'' then s else s @ ''.'')"

fun has_empty_label :: "string \<Rightarrow> bool" where
  "has_empty_label (a # b # cs) = ((a = CHR ''.'' \<and> b = CHR ''.'') \<or> has_empty_label (b # cs))"
| "has_empty_label cs = False"

definition example_IsDomainName :: "string \<Rightarrow> bool" where
  "example_IsDomainName s = (s \<noteq> [] \<and> \<not> has_empty_label s)"

section \<open>StartServer (dispatcher/domainlist/load_helper.go)\<close>

text \<open>
  \<^verbatim>\<open>strings.Split\<close> with a non-empty separator cuts at the leftmost occurrences of the
  separator, which do not overlap.
\<close>

fun Split_from :: "string \<Rightarrow> string \<Rightarrow> string \<Rightarrow> string list" where
  "Split_from sep acc [] = [rev acc]"
| "Split_from sep acc (c # cs) =
     (if sep \<noteq> [] \<and> take (length sep) (c # cs) = sep
      then rev acc # Split_from sep [] (drop (length sep - 1) cs)
      else Split_from sep (c # acc) cs)"

definition Split :: "string \<Rightarrow> string \<Rightarrow> string list" where
  "Split s sep = Split_from sep [] s"

text \<open>
  \<^verbatim>\<open>StartServer\<close> returns an error (\<open>Returns\<close>, with \<open>None\<close> for a nil error) or
  blocks for ever in \<^verbatim>\<open><-errChan\<close> (\<open>Blocks\<close>). The parameters \<open>Listen\<close> and
  \<open>ListenPacket\<close> are \<^verbatim>\<open>net.Listen\<close> and \<^verbatim>\<open>net.ListenPacket\<close>: they give the error,
  if any, of listening on a network and an address. The parameter \<open>first_exit\<close> gives,
  for the servers started, the first value that a returning \<^verbatim>\<open>ListenAndServe\<close> sends
  on \<^verbatim>\<open>errChan\<close>, or \<open>None\<close> when no listener ever returns. \<^verbatim>\<open>fmt.Errorf\<close> builds
  \<open>Errorf text wrapped\<close>, where \<open>wrapped\<close> is the operand of \<^verbatim>\<open>%w\<close>, if any.
\<close>

datatype 'a outcome = Returns 'a | Blocks

definition tcp_networks :: "string list" where
  "tcp_networks = [''tcp'', ''tcp4'', ''tcp6'']"

definition udp_networks :: "string list" where
  "udp_networks = [''udp'', ''udp4'', ''udp6'']"

fun StartServer_loop ::
  "(string \<Rightarrow> string \<Rightarrow> go_error option) \<Rightarrow> (string \<Rightarrow> string \<Rightarrow> go_error option)
     \<Rightarrow> (string \<times> string) list \<Rightarrow> string list \<Rightarrow> go_error + (string \<times> string) list" where
  "StartServer_loop Listen ListenPacket started [] = Inr started"
| "StartServer_loop Listen ListenPacket started (s # rest) =
     (let ss = Split s ''://''
      in if length ss \<noteq> 2 then Inl (Errorf (''invalid bind address: '' @ s) None)
         else (let network = ss ! 0; addr = ss ! 1
               in if network \<in> set tcp_networks
                  then (case Listen network addr of
                          Some err \<Rightarrow> Inl err
                        | None \<Rightarrow> StartServer_loop Listen ListenPacket (started @ [(network, addr)]) rest)
                  else if network \<in> set udp_networks
                  then (case ListenPacket network addr of
                          Some err \<Rightarrow> Inl err
                        | None \<Rightarrow> StartServer_loop Listen ListenPacket (started @ [(network, addr)]) rest)
                  else Inl (Errorf (''invalid bind protocol: '' @ network) None)))"

definition StartServer ::
  "(string \<Rightarrow> string \<Rightarrow> go_error option) \<Rightarrow> (string \<Rightarrow> string \<Rightarrow> go_error option)
     \<Rightarrow> ((string \<times> string) list \<Rightarrow> go_error option option) \<Rightarrow> string list
     \<Rightarrow> go_error option outcome" where
  "StartServer Listen ListenPacket first_exit Bind =
     (if length Bind = 0 then Returns (Some (Errorf ''no address to bind'' None))
      else (case StartServer_loop Listen ListenPacket [] Bind of
              Inl err \<Rightarrow> Returns (Some err)
            | Inr started \<Rightarrow>
                (case first_exit started of
                   None \<Rightarrow> Blocks
                 | Some listenerErr \<Rightarrow>
                     Returns (Some (Errorf ''server listener failed and exited: '' listenerErr)))))"

text \<open>
  A bind string starts a server when it has the form \<^verbatim>\<open>network://addr\<close>, its network is
  one of the six known and listening succeeds; \<open>bind_pair\<close> is that server.
\<close>

definition bind_starts :: "(string \<Rightarrow> string \<Rightarrow> go_error option) \<Rightarrow> (string \<Rightarrow> string \<Rightarrow> go_error option)
     \<Rightarrow> string \<Rightarrow> bool" where
  "bind_starts Listen ListenPacket s =
     (length (Split s ''://'') = 2 \<and>
      ((Split s ''://'' ! 0 \<in> set tcp_networks \<and>
        Listen (Split s ''://'' ! 0) (Split s ''://'' ! 1) = None) \<or>
       (Split s ''://'' ! 0 \<in> set udp_networks \<and>
        ListenPacket (Split s ''://'' ! 0) (Split s ''://'' ! 1) = None)))"

definition bind_pair :: "string \<Rightarrow> string \<times> string" where
  "bind_pair s = (Split s ''://'' ! 0, Split s ''://'' ! 1)"

section \<open>Example messages\<close>

text \<open>An A query for \<^verbatim>\<open>example.com.\<close>, a reply to it, and the query with an ECS option.\<close>

definition example_question :: dns_Question where
  "example_question = \<lparr>Q_Name = ''example.com.'', Qtype = 1, Qclass = 1\<rparr>"

definition example_query :: Msg where
  "example_query = new_Msg\<lparr>MsgHdr_Id := 7, RecursionDesired := True, Question := [example_question]\<rparr>"

definition example_answer :: RR where
  "example_answer = \<lparr>Hdr_Name = ''example.com.'', Rrtype = 1, Class = 1, Ttl = 300, Rdata = Opaque ''1.2.3.4''\<rparr>"

definition example_reply :: Msg where
  "example_reply = new_Msg\<lparr>MsgHdr_Id := 7, Response := True, RecursionDesired := True,
     Question := [example_question], Answer := [example_answer]\<rparr>"

definition example_ecs_query :: Msg where
  "example_ecs_query = example_query\<lparr>Extra :=
     [\<lparr>Hdr_Name = ''.'', Rrtype = 41, Class = 4096, Ttl = 0, Rdata = OPT [(EDNS0SUBNET, ''10.0.0.0/8'')]\<rparr>]\<rparr>"

section \<open>Properties of the dispatcher with a cache\<close>

lemma cache_probe_minTTL: "cache_probe d t0 q = Inr (r, d1) \<Longrightarrow> minTTL d1 = minTTL d"
  by (auto simp: cache_probe_def split: option.splits sum.splits prod.splits)

lemma ttl_max: "(if (a::uint32) < b then b else a) = max a b"
  by (auto simp: max_def)

text \<open>
  Claim C2. When the cache probe of \<^verbatim>\<open>ServeDNS\<close> falls through to the dispatch, the
  dispatcher has a cache \<open>c\<close> and the dispatch succeeds with the reply \<open>r\<close>, the reply
  returned is \<open>r\<close> with every TTL set to \<open>ttl = max (GetAnswerMinTTL r) minTTL\<close>, and
  the cache afterwards is \<open>c\<close> with that reply added under the reply's question with the
  expiry \<open>t1 + ttl\<close> seconds exactly when the reply has one question and the rcode
  NOERROR; otherwise the cache is \<open>c\<close>, unchanged.
\<close>

theorem ServeDNS_cache_insert:
  assumes "cache_probe d t0 q = Inr (None, d1)" and "cache d1 = Some c" and "dispatch q = Inr r"
  shows "\<exists>ttl r' c2. ttl = max (GetAnswerMinTTL r) (minTTL d) \<and> r' = SetAnswerTTL r ttl \<and>
           ServeDNS dispatch t0 t1 d q = Inr ((Some r', None), d1\<lparr>cache := Some c2\<rparr>) \<and>
           c2 = (if length (Question r) = 1 \<and> Rcode r = RcodeSuccess
                 then Cache_Add c t1 (Question r ! 0) r' (t1 + uint ttl * Second) else c) \<and>
           (if length (Question r) = 1 \<and> Rcode r = RcodeSuccess
            then last (entries c2) = (question_key (Question r ! 0), r', t1 + uint ttl * Second)
            else entries c2 = entries c)"
proof -
  have m: "minTTL d1 = minTTL d" using assms(1) by (rule cache_probe_minTTL)
  have q: "Question (SetAnswerTTL r t) = Question r" "Rcode (SetAnswerTTL r t) = Rcode r" for t
    by (simp_all add: SetAnswerTTL_def)
  show ?thesis
    using assms m
    by (simp add: ServeDNS_def Let_def ttl_max tryAddToCache_def q Cache_Add_def)
qed


text \<open>The claim at a query with one question, a reply with TTL 300 and \<open>minTTL = 600\<close>.\<close>

theorem ServeDNS_cache_insert_witness:
  "cache_probe \<lparr>cache = Some (Cache_New 8), minTTL = 600\<rparr> 5 example_query
     = Inr (None, \<lparr>cache = Some (Cache_New 8), minTTL = 600\<rparr>) \<and>
   (\<exists>d2 c2. ServeDNS (\<lambda>_. Inr example_reply) 5 6 \<lparr>cache = Some (Cache_New 8), minTTL = 600\<rparr> example_query
        = Inr ((Some (SetAnswerTTL example_reply 600), None), d2) \<and> cache d2 = Some c2 \<and>
      entries c2 = [(question_key example_question, SetAnswerTTL example_reply 600, 600000000006)])"
proof -
  have p: "cache_probe \<lparr>cache = Some (Cache_New 8), minTTL = 600\<rparr> 5 example_query
     = Inr (None, \<lparr>cache = Some (Cache_New 8), minTTL = 600\<rparr>)"
    by (simp add: cache_probe_def tryGetFromCache_def example_query_def)
  have g: "GetAnswerMinTTL example_reply = 300"
    by (simp add: GetAnswerMinTTL_def example_reply_def example_answer_def new_Msg_def)
  have e: "length (Question example_reply) = 1 \<and> Rcode example_reply = RcodeSuccess \<and>
           Question example_reply ! 0 = example_question"
    by (simp add: example_reply_def new_Msg_def RcodeSuccess_def)
  from ServeDNS_cache_insert [OF p, of "Cache_New 8" "\<lambda>_. Inr example_reply" example_reply 6]
  show ?thesis using p g e
    by (auto simp: Cache_Add_def Cache_New_def Second_def)
qed

text \<open>
  Claim C3. When the cache probe of \<^verbatim>\<open>ServeDNS\<close> falls through to the dispatch (no
  cache hit, with or without a cache) and the dispatch succeeds with the reply \<open>r\<close>,
  \<^verbatim>\<open>ServeDNS\<close> returns a reply in which every record of the answer, authority and
  additional sections has the TTL \<open>max (GetAnswerMinTTL r) minTTL\<close>, which is at least
  \<open>minTTL\<close>.
\<close>

theorem ServeDNS_ttl_floor:
  assumes "cache_probe d t0 q = Inr (None, d1)" and "dispatch q = Inr r"
  shows "\<exists>r' d2. ServeDNS dispatch t0 t1 d q = Inr ((Some r', None), d2) \<and>
           list_all (\<lambda>rr. Ttl rr = max (GetAnswerMinTTL r) (minTTL d) \<and> minTTL d \<le> Ttl rr)
             (Answer r' @ Ns r' @ Extra r')"
proof -
  have m: "minTTL d1 = minTTL d" using assms(1) by (rule cache_probe_minTTL)
  have a: "list_all (\<lambda>rr. Ttl rr = t \<and> minTTL d \<le> Ttl rr) (map (\<lambda>rr. rr\<lparr>Ttl := t\<rparr>) xs)"
    if "minTTL d \<le> t" for t and xs :: "RR list"
    using that by (induction xs) simp_all
  show ?thesis
    using assms m
    by (simp add: ServeDNS_def Let_def ttl_max SetAnswerTTL_def a split: option.splits)
qed

text \<open>The claim at a dispatcher without a cache, a reply with TTL 300 and \<open>minTTL = 600\<close>.\<close>

theorem ServeDNS_ttl_floor_witness:
  "cache_probe \<lparr>cache = None, minTTL = 600\<rparr> 5 example_query = Inr (None, \<lparr>cache = None, minTTL = 600\<rparr>) \<and>
   ServeDNS (\<lambda>_. Inr example_reply) 5 6 \<lparr>cache = None, minTTL = 600\<rparr> example_query
     = Inr ((Some (example_reply\<lparr>Answer := [example_answer\<lparr>Ttl := 600\<rparr>]\<rparr>), None), \<lparr>cache = None, minTTL = 600\<rparr>)"
proof -
  have p: "cache_probe \<lparr>cache = None, minTTL = 600\<rparr> 5 example_query = Inr (None, \<lparr>cache = None, minTTL = 600\<rparr>)"
    by (simp add: cache_probe_def)
  have g: "GetAnswerMinTTL example_reply = 300"
    by (simp add: GetAnswerMinTTL_def example_reply_def example_answer_def new_Msg_def)
  from ServeDNS_ttl_floor [OF p, of "\<lambda>_. Inr example_reply" example_reply 6]
  show ?thesis using p g
    by (auto simp: ServeDNS_def Let_def SetAnswerTTL_def example_reply_def new_Msg_def)
qed

text \<open>
  The guard of \<^verbatim>\<open>tryGetFromCache\<close>, case by case: a query with exactly one question, or
  with an ECS option, gets nil and the cache is not touched; a query with no question and
  no ECS option panics.
\<close>

lemma tryGetFromCache_one_question:
  "length (Question q) = 1 \<Longrightarrow> tryGetFromCache c now q = Inr (None, c)"
  by (simp add: tryGetFromCache_def)

lemma tryGetFromCache_ECS:
  "checkMsgHasECS q \<Longrightarrow> tryGetFromCache c now q = Inr (None, c)"
  by (simp add: tryGetFromCache_def)

lemma tryGetFromCache_no_question:
  "Question q = [] \<Longrightarrow> \<not> checkMsgHasECS q \<Longrightarrow> tryGetFromCache c now q = Inl IndexOutOfRange"
  by (simp add: tryGetFromCache_def)

text \<open>
  Claim C1, evaluated on the code. The cache holds a reply for \<open>example_question\<close> that
  expires after 300 seconds, and a lookup of that question at time 5 hits. Yet
  \<^verbatim>\<open>tryGetFromCache\<close> answers the query with exactly that one question (and no ECS
  option) with nil, since its guard returns on \<^verbatim>\<open>len(q.Question) == 1\<close>, and
  \<^verbatim>\<open>ServeDNS\<close> goes to the upstreams: here the dispatch fails and so does the call.
\<close>

theorem tryGetFromCache_one_question_never_probes:
  "Cache_Get (Cache_Add (Cache_New 8) 0 example_question (example_reply\<lparr>MsgHdr_Id := 99\<rparr>) (300 * Second))
      5 example_question
     = (Some (example_reply\<lparr>MsgHdr_Id := 99\<rparr>),
        Cache_Add (Cache_New 8) 0 example_question (example_reply\<lparr>MsgHdr_Id := 99\<rparr>) (300 * Second)) \<and>
   tryGetFromCache (Cache_Add (Cache_New 8) 0 example_question (example_reply\<lparr>MsgHdr_Id := 99\<rparr>) (300 * Second))
      5 example_query
     = Inr (None, Cache_Add (Cache_New 8) 0 example_question (example_reply\<lparr>MsgHdr_Id := 99\<rparr>) (300 * Second)) \<and>
   ServeDNS (\<lambda>_. Inl ErrUpstreamsFailed) 5 6
      \<lparr>cache = Some (Cache_Add (Cache_New 8) 0 example_question (example_reply\<lparr>MsgHdr_Id := 99\<rparr>) (300 * Second)),
       minTTL = 0\<rparr> example_query
     = Inr ((None, Some ErrUpstreamsFailed),
        \<lparr>cache = Some (Cache_Add (Cache_New 8) 0 example_question (example_reply\<lparr>MsgHdr_Id := 99\<rparr>) (300 * Second)),
         minTTL = 0\<rparr>)"
  by (simp add: Cache_Get_def Cache_Add_def Cache_New_def Second_def tryGetFromCache_def
      ServeDNS_def cache_probe_def example_query_def)

text \<open>
  Claim C8, evaluated on the code. For a query with an empty question section and no ECS
  option the guard of \<^verbatim>\<open>tryGetFromCache\<close> does not return, and the index expression
  \<^verbatim>\<open>q.Question[0]\<close> is out of range: the lookup panics, and so does \<^verbatim>\<open>ServeDNS\<close>,
  which never reaches the dispatch.
\<close>

theorem tryGetFromCache_empty_question_panics:
  "tryGetFromCache (Cache_New 8) 5 (new_Msg\<lparr>MsgHdr_Id := 7\<rparr>) = Inl IndexOutOfRange \<and>
   ServeDNS (\<lambda>_. Inr example_reply) 5 6 \<lparr>cache = Some (Cache_New 8), minTTL = 0\<rparr> (new_Msg\<lparr>MsgHdr_Id := 7\<rparr>)
     = Inl IndexOutOfRange"
  by (simp add: tryGetFromCache_def ServeDNS_def cache_probe_def new_Msg_def checkMsgHasECS_def)

text \<open>
  Claim C4, evaluated on the code. The query carries an ECS option; \<^verbatim>\<open>ServeDNS\<close> does
  not answer it from the cache, but \<^verbatim>\<open>tryAddToCache\<close> looks at the reply only (one
  question, rcode NOERROR) and stores it: the cache, empty before, holds the reply
  afterwards.
\<close>

theorem ServeDNS_ecs_query_fills_cache:
  "checkMsgHasECS example_ecs_query \<and>
   (\<exists>c2. ServeDNS (\<lambda>_. Inr example_reply) 5 6 \<lparr>cache = Some (Cache_New 8), minTTL = 0\<rparr> example_ecs_query
      = Inr ((Some example_reply, None), \<lparr>cache = Some c2, minTTL = 0\<rparr>) \<and>
     entries c2 = [(question_key example_question, example_reply, 6 + 300 * Second)] \<and>
     c2 \<noteq> Cache_New 8)"
proof -
  have g: "GetAnswerMinTTL example_reply = 300"
    by (simp add: GetAnswerMinTTL_def example_reply_def example_answer_def new_Msg_def)
  have e: "length (Question example_reply) = 1 \<and> Rcode example_reply = RcodeSuccess \<and>
           Question example_reply ! 0 = example_question"
    by (simp add: example_reply_def new_Msg_def RcodeSuccess_def)
  have s: "SetAnswerTTL example_reply 300 = example_reply"
    by (simp add: SetAnswerTTL_def example_reply_def example_answer_def new_Msg_def)
  have h: "checkMsgHasECS example_ecs_query"
    by (simp add: checkMsgHasECS_def example_ecs_query_def rr_has_ECS_def)
  show ?thesis using g e s h
    by (simp add: ServeDNS_def cache_probe_def tryGetFromCache_def Let_def tryAddToCache_def
        Cache_Add_def Cache_New_def)
qed


section \<open>Properties of Dispatch and of ServeDNS over it\<close>

lemma all_exited_nth: "all_exited s \<Longrightarrow> i < length (tasks s) \<Longrightarrow> tasks s ! i = Exited"
  by (simp add: all_exited_def list_all_length)

lemma all_exited_update: "all_exited s \<Longrightarrow> all_exited (s\<lparr>tasks := (tasks s)[i := Exited]\<rparr>)"
  using set_update_subset_insert [of "tasks s" i Exited]
  by (auto simp: all_exited_def list_all_iff)

lemma all_exited_cong [simp]:
  "all_exited (s\<lparr>ctx := a\<rparr>) = all_exited s"
  "all_exited (s\<lparr>resChan := b\<rparr>) = all_exited s"
  "all_exited (s\<lparr>notifier := c\<rparr>) = all_exited s"
  "all_exited (s\<lparr>failedChan_closed := d\<rparr>) = all_exited s"
  "all_exited (s\<lparr>caller := e\<rparr>) = all_exited s"
  "all_exited (s\<lparr>sent := f\<rparr>) = all_exited s"
  by (simp_all add: all_exited_def)

lemma Dispatch_inv_init: "Dispatch_inv (Dispatch_init n)"
  by (simp add: Dispatch_inv_def Dispatch_init_def)

lemma Dispatch_inv_step: "Dispatch_step s s' \<Longrightarrow> Dispatch_inv s \<Longrightarrow> Dispatch_inv s'"
proof (induction rule: Dispatch_step.induct)
  case (exchange_fails i s)
  then show ?case by (auto simp: Dispatch_inv_def dest: all_exited_nth)
next
  case (exchange_accepts i s r)
  then show ?case by (auto simp: Dispatch_inv_def dest: all_exited_nth)
next
  case (publish i s r)
  then show ?case by (auto simp: Dispatch_inv_def dest: all_exited_nth)
next
  case (drop i s r m)
  then show ?case by (auto simp: Dispatch_inv_def dest: all_exited_nth)
next
  case (select_ctx s e)
  then show ?case by (auto simp: Dispatch_inv_def ctx_Err_def split: ctx_state.splits)
qed (auto simp: Dispatch_inv_def)

lemma Dispatch_inv_run: "Dispatch_run s0 s \<Longrightarrow> Dispatch_inv s0 \<Longrightarrow> Dispatch_inv s"
  by (induction rule: Dispatch_run.induct) (auto intro: Dispatch_inv_step)

lemma Dispatch_reachable_inv: "Dispatch_run (Dispatch_init n) s \<Longrightarrow> Dispatch_inv s"
  by (rule Dispatch_inv_run [OF _ Dispatch_inv_init])


lemma Dispatch_run_trans: "Dispatch_run t u \<Longrightarrow> Dispatch_run s t \<Longrightarrow> Dispatch_run s u"
  by (induction rule: Dispatch_run.induct) (auto intro: Dispatch_run.intros)

lemma Dispatch_step_caller_returns:
  assumes "Dispatch_step s s'" and "caller s = Selecting" and "caller s' = Returned res"
  shows "(\<exists>m. resChan s = Some m \<and> res = (Some m, None)) \<or>
         (failedChan_closed s \<and> res = (None, Some ErrUpstreamsFailed)) \<or>
         (ctx s = Expired \<and> res = (None, Some DeadlineExceeded)) \<or>
         (ctx s = Cancelled \<and> res = (None, Some Canceled))"
  using assms
  by (induction rule: Dispatch_step.induct) (auto simp: ctx_Err_def split: ctx_state.splits)














lemma ServeDNS_v2_failed:
  "ServeDNS_v2 q (None, Some ErrUpstreamsFailed) =
     (Some ((SetReply new_Msg q)\<lparr>Rcode := RcodeServerFailure\<rparr>), Some ErrUpstreamsFailed)"
  by (simp add: ServeDNS_v2_def)

lemma SetReply_mirror:
  "MsgHdr_Id (SetReply new_Msg q) = MsgHdr_Id q \<and> Question (SetReply new_Msg q) = take 1 (Question q)"
  by (cases "Question q") (simp_all add: SetReply_def Let_def new_Msg_def)

lemma Dispatch_run_step_first: "Dispatch_step s t \<Longrightarrow> Dispatch_run t u \<Longrightarrow> Dispatch_run s u"
  by (rule Dispatch_run_trans [OF _ run_step [OF run_refl]])

lemma report_from_closed:
  assumes "caller s = Selecting" and "failedChan_closed s"
  shows "\<exists>s'. Dispatch_run s s' \<and> caller s' = Returned (None, Some ErrUpstreamsFailed)"
proof -
  have "Dispatch_step s (s\<lparr>caller := Returned (None, Some ErrUpstreamsFailed)\<rparr>)"
    using assms by (rule select_failed)
  then have "Dispatch_run s (s\<lparr>caller := Returned (None, Some ErrUpstreamsFailed)\<rparr>)"
    by (rule run_step [OF run_refl])
  moreover have "caller (s\<lparr>caller := Returned (None, Some ErrUpstreamsFailed)\<rparr>)
      = Returned (None, Some ErrUpstreamsFailed)" by simp
  ultimately show ?thesis by blast
qed

lemma report_from_closing:
  assumes "caller s = Selecting" and "notifier s = Closing"
  shows "\<exists>s'. Dispatch_run s s' \<and> caller s' = Returned (None, Some ErrUpstreamsFailed)"
proof -
  let ?t = "s\<lparr>notifier := Finished, failedChan_closed := True\<rparr>"
  have st: "Dispatch_step s ?t" using assms(2) by (rule close)
  have "caller ?t = Selecting" "failedChan_closed ?t" using assms(1) by simp_all
  then obtain s' where "Dispatch_run ?t s'" "caller s' = Returned (None, Some ErrUpstreamsFailed)"
    using report_from_closed by blast
  with st show ?thesis using Dispatch_run_step_first by blast
qed

lemma report_from_woken:
  assumes "caller s = Selecting" and "notifier s = Woken" and "resChan s = None"
  shows "\<exists>s'. Dispatch_run s s' \<and> caller s' = Returned (None, Some ErrUpstreamsFailed)"
proof -
  let ?t = "s\<lparr>notifier := Closing\<rparr>"
  have st: "Dispatch_step s ?t" using assms(2,3) by (rule len_zero)
  have "caller ?t = Selecting" "notifier ?t = Closing" using assms(1) by simp_all
  then obtain s' where "Dispatch_run ?t s'" "caller s' = Returned (None, Some ErrUpstreamsFailed)"
    using report_from_closing by blast
  with st show ?thesis using Dispatch_run_step_first by blast
qed

lemma report_from_waiting:
  assumes "caller s = Selecting" and "notifier s = Waiting" and "resChan s = None" and "all_exited s"
  shows "\<exists>s'. Dispatch_run s s' \<and> caller s' = Returned (None, Some ErrUpstreamsFailed)"
proof -
  let ?t = "s\<lparr>notifier := Woken\<rparr>"
  have st: "Dispatch_step s ?t" using assms(2,4) by (rule wait_returns)
  have "caller ?t = Selecting" "notifier ?t = Woken" "resChan ?t = None" using assms(1,3) by simp_all
  then obtain s' where "Dispatch_run ?t s'" "caller s' = Returned (None, Some ErrUpstreamsFailed)"
    using report_from_woken by blast
  with st show ?thesis using Dispatch_run_step_first by blast
qed

lemma Dispatch_can_report_failure:
  assumes inv: "Dispatch_inv s" and ex: "all_exited s" and ns: "sent s = []" and sel: "caller s = Selecting"
  shows "\<exists>s'. Dispatch_run s s' \<and> caller s' = Returned (None, Some ErrUpstreamsFailed)"
proof -
  have none: "resChan s = None"
    using inv ns by (cases "resChan s") (auto simp: Dispatch_inv_def)
  show ?thesis
  proof (cases "notifier s")
    case Waiting
    with sel none ex show ?thesis by (intro report_from_waiting)
  next
    case Woken
    with sel none show ?thesis by (intro report_from_woken)
  next
    case Closing
    with sel show ?thesis by (intro report_from_closing)
  next
    case Finished
    with inv ns have "failedChan_closed s" by (simp add: Dispatch_inv_def)
    with sel show ?thesis by (intro report_from_closed)
  qed
qed

lemma Dispatch_step_no_reply_live:
  assumes "Dispatch_inv s" and "caller s = Selecting" and "sent s = []"
   and "Dispatch_step s s'" "caller s' = Returned res" "ctx s = Live"
  shows "all_exited s \<and> res = (None, Some ErrUpstreamsFailed)"
proof -
  have none: "resChan s = None"
    using assms(1,3) by (cases "resChan s") (auto simp: Dispatch_inv_def)
  have "failedChan_closed s \<and> res = (None, Some ErrUpstreamsFailed)"
    using Dispatch_step_caller_returns [OF assms(4) assms(2) assms(5)] assms(6) none by auto
  moreover have "failedChan_closed s \<Longrightarrow> all_exited s"
    using assms(1) by (simp add: Dispatch_inv_def)
  ultimately show ?thesis by blast
qed


text \<open>
  Claim C5 fails as stated. Two upstreams; the deadline of the context passes; both
  \<^verbatim>\<open>Exchange\<close> calls return without an accepted reply; the \<^verbatim>\<open>select\<close> takes the
  \<^verbatim>\<open>ctx.Done()\<close> case. No upstream has published, \<^verbatim>\<open>Dispatch\<close> returns
  \<^verbatim>\<open>context.DeadlineExceeded\<close> and not \<^verbatim>\<open>ErrUpstreamsFailed\<close>, and \<^verbatim>\<open>ServeDNS\<close>
  returns a nil reply.
\<close>

theorem Dispatch_deadline_with_no_reply_counterexample:
  "Dispatch_run (Dispatch_init 2)
     \<lparr>ctx = Expired, tasks = [Exited, Exited], resChan = None, notifier = Waiting,
      failedChan_closed = False, caller = Returned (None, Some DeadlineExceeded), sent = []\<rparr> \<and>
   ServeDNS_v2 example_query (None, Some DeadlineExceeded) = (None, Some DeadlineExceeded)"
proof -
  let ?s1 = "\<lparr>ctx = Expired, tasks = [Exchanging, Exchanging], resChan = None, notifier = Waiting,
      failedChan_closed = False, caller = Selecting, sent = []\<rparr>"
  let ?s2 = "\<lparr>ctx = Expired, tasks = [Exited, Exchanging], resChan = None, notifier = Waiting,
      failedChan_closed = False, caller = Selecting, sent = []\<rparr>"
  let ?s3 = "\<lparr>ctx = Expired, tasks = [Exited, Exited], resChan = None, notifier = Waiting,
      failedChan_closed = False, caller = Selecting, sent = []\<rparr>"
  let ?s4 = "\<lparr>ctx = Expired, tasks = [Exited, Exited], resChan = None, notifier = Waiting,
      failedChan_closed = False, caller = Returned (None, Some DeadlineExceeded), sent = []\<rparr>"
  have "Dispatch_step (Dispatch_init 2) ?s1"
    using Dispatch_step.deadline [of "Dispatch_init 2"]
    by (simp add: Dispatch_init_def numeral_2_eq_2)
  then have r1: "Dispatch_run (Dispatch_init 2) ?s1"
    by (rule run_step [OF run_refl])
  have "Dispatch_step ?s1 ?s2"
    using Dispatch_step.exchange_fails [of 0 ?s1] by simp
  with r1 have r2: "Dispatch_run (Dispatch_init 2) ?s2" by (rule run_step)
  have "Dispatch_step ?s2 ?s3"
    using Dispatch_step.exchange_fails [of 1 ?s2] by simp
  with r2 have r3: "Dispatch_run (Dispatch_init 2) ?s3" by (rule run_step)
  have "Dispatch_step ?s3 ?s4"
    using Dispatch_step.select_ctx [of ?s3 DeadlineExceeded] by (simp add: ctx_Err_def)
  with r3 have r4: "Dispatch_run (Dispatch_init 2) ?s4" by (rule run_step)
  show ?thesis using r4 by (simp add: ServeDNS_v2_def)
qed

text \<open>
  Claim C5, amended. In a reachable state where the caller is in its \<^verbatim>\<open>select\<close> and no
  upstream has published: once every upstream goroutine has exited, a run leads to the
  return of \<^verbatim>\<open>ErrUpstreamsFailed\<close>; and a \<^verbatim>\<open>select\<close> that fires while the context is
  live finds every upstream goroutine exited and returns \<^verbatim>\<open>(nil, ErrUpstreamsFailed)\<close>,
  on which \<^verbatim>\<open>ServeDNS\<close> returns, with that error, a reply with the rcode SERVFAIL, the
  query's id and the query's first question (its question section, when that has at
  most one question).
\<close>

theorem Dispatch_all_failed_servfail:
  assumes "Dispatch_run (Dispatch_init n) s" and "caller s = Selecting" and "sent s = []"
  shows "(all_exited s \<longrightarrow>
            (\<exists>s'. Dispatch_run s s' \<and> caller s' = Returned (None, Some ErrUpstreamsFailed))) \<and>
         (\<forall>s' res. Dispatch_step s s' \<and> caller s' = Returned res \<and> ctx s = Live \<longrightarrow>
            all_exited s \<and> res = (None, Some ErrUpstreamsFailed) \<and>
            ServeDNS_v2 q res =
              (Some ((SetReply new_Msg q)\<lparr>Rcode := RcodeServerFailure\<rparr>), Some ErrUpstreamsFailed) \<and>
            Rcode ((SetReply new_Msg q)\<lparr>Rcode := RcodeServerFailure\<rparr>) = RcodeServerFailure \<and>
            MsgHdr_Id ((SetReply new_Msg q)\<lparr>Rcode := RcodeServerFailure\<rparr>) = MsgHdr_Id q \<and>
            Question ((SetReply new_Msg q)\<lparr>Rcode := RcodeServerFailure\<rparr>) = take 1 (Question q))"
proof -
  have inv: "Dispatch_inv s" using assms(1) by (rule Dispatch_reachable_inv)
  have a: "all_exited s \<longrightarrow>
            (\<exists>s'. Dispatch_run s s' \<and> caller s' = Returned (None, Some ErrUpstreamsFailed))"
    using Dispatch_can_report_failure [OF inv _ assms(3) assms(2)] by blast
  have b: "all_exited s \<and> res = (None, Some ErrUpstreamsFailed)"
    if "Dispatch_step s s'" "caller s' = Returned res" "ctx s = Live" for s' res
    using inv assms(2,3) that by (rule Dispatch_step_no_reply_live)
  have c: "Rcode ((SetReply new_Msg q)\<lparr>Rcode := RcodeServerFailure\<rparr>) = RcodeServerFailure \<and>
            MsgHdr_Id ((SetReply new_Msg q)\<lparr>Rcode := RcodeServerFailure\<rparr>) = MsgHdr_Id q \<and>
            Question ((SetReply new_Msg q)\<lparr>Rcode := RcodeServerFailure\<rparr>) = take 1 (Question q)"
    using SetReply_mirror [of q] by simp
  show ?thesis
  proof (intro conjI allI impI)
    assume "all_exited s"
    with a show "\<exists>s'. Dispatch_run s s' \<and> caller s' = Returned (None, Some ErrUpstreamsFailed)"
      by (rule mp)
  next
    fix s' res
    assume h: "Dispatch_step s s' \<and> caller s' = Returned res \<and> ctx s = Live"
    then have r: "all_exited s \<and> res = (None, Some ErrUpstreamsFailed)" using b by blast
    from r show "all_exited s" by simp
    from r show "res = (None, Some ErrUpstreamsFailed)" by simp
    from r show "ServeDNS_v2 q res =
        (Some ((SetReply new_Msg q)\<lparr>Rcode := RcodeServerFailure\<rparr>), Some ErrUpstreamsFailed)"
      by (simp add: ServeDNS_v2_failed)
    from c show "Rcode ((SetReply new_Msg q)\<lparr>Rcode := RcodeServerFailure\<rparr>) = RcodeServerFailure" by simp
    from c show "MsgHdr_Id ((SetReply new_Msg q)\<lparr>Rcode := RcodeServerFailure\<rparr>) = MsgHdr_Id q" by simp
    from c show "Question ((SetReply new_Msg q)\<lparr>Rcode := RcodeServerFailure\<rparr>) = take 1 (Question q)" by simp
  qed
qed

text \<open>The claim on a run of one upstream that fails, after the notifier has closed the channel.\<close>

theorem Dispatch_all_failed_servfail_witness:
  "Dispatch_run (Dispatch_init 1)
     \<lparr>ctx = Live, tasks = [Exited], resChan = None, notifier = Finished,
      failedChan_closed = True, caller = Selecting, sent = []\<rparr> \<and>
   Dispatch_step
     \<lparr>ctx = Live, tasks = [Exited], resChan = None, notifier = Finished,
      failedChan_closed = True, caller = Selecting, sent = []\<rparr>
     \<lparr>ctx = Live, tasks = [Exited], resChan = None, notifier = Finished,
      failedChan_closed = True, caller = Returned (None, Some ErrUpstreamsFailed), sent = []\<rparr> \<and>
   ServeDNS_v2 example_query (None, Some ErrUpstreamsFailed) =
     (Some (new_Msg\<lparr>MsgHdr_Id := 7, Response := True, RecursionDesired := True,
        Rcode := 2, Question := [example_question]\<rparr>), Some ErrUpstreamsFailed)"
proof -
  let ?s1 = "\<lparr>ctx = Live, tasks = [Exited], resChan = None, notifier = Waiting,
      failedChan_closed = False, caller = Selecting, sent = []\<rparr>"
  let ?s2 = "\<lparr>ctx = Live, tasks = [Exited], resChan = None, notifier = Woken,
      failedChan_closed = False, caller = Selecting, sent = []\<rparr>"
  let ?s3 = "\<lparr>ctx = Live, tasks = [Exited], resChan = None, notifier = Closing,
      failedChan_closed = False, caller = Selecting, sent = []\<rparr>"
  let ?s4 = "\<lparr>ctx = Live, tasks = [Exited], resChan = None, notifier = Finished,
      failedChan_closed = True, caller = Selecting, sent = []\<rparr>"
  let ?s5 = "\<lparr>ctx = Live, tasks = [Exited], resChan = None, notifier = Finished,
      failedChan_closed = True, caller = Returned (None, Some ErrUpstreamsFailed), sent = []\<rparr>"
  have "Dispatch_step (Dispatch_init 1) ?s1"
    using Dispatch_step.exchange_fails [of 0 "Dispatch_init 1"] by (simp add: Dispatch_init_def)
  then have r1: "Dispatch_run (Dispatch_init 1) ?s1" by (rule run_step [OF run_refl])
  have "Dispatch_step ?s1 ?s2"
    using Dispatch_step.wait_returns [of ?s1] by (simp add: all_exited_def)
  with r1 have r2: "Dispatch_run (Dispatch_init 1) ?s2" by (rule run_step)
  have "Dispatch_step ?s2 ?s3"
    using Dispatch_step.len_zero [of ?s2] by simp
  with r2 have r3: "Dispatch_run (Dispatch_init 1) ?s3" by (rule run_step)
  have "Dispatch_step ?s3 ?s4"
    using Dispatch_step.close [of ?s3] by simp
  with r3 have r4: "Dispatch_run (Dispatch_init 1) ?s4" by (rule run_step)
  have st: "Dispatch_step ?s4 ?s5"
    using Dispatch_step.select_failed [of ?s4] by simp
  have v: "(SetReply new_Msg example_query)\<lparr>Rcode := RcodeServerFailure\<rparr> =
      new_Msg\<lparr>MsgHdr_Id := 7, Response := True, RecursionDesired := True,
        Rcode := 2, Question := [example_question]\<rparr>"
    by (simp add: SetReply_def Let_def new_Msg_def example_query_def RcodeServerFailure_def
        RcodeSuccess_def OpcodeQuery_def)
  have k: "caller ?s4 = Selecting" "sent ?s4 = []" by simp_all
  note t = Dispatch_all_failed_servfail [OF r4 k, of example_query, THEN conjunct2, rule_format,
      of ?s5 "(None, Some ErrUpstreamsFailed)"]
  have "Dispatch_step ?s4 ?s5 \<and> caller ?s5 = Returned (None, Some ErrUpstreamsFailed) \<and> ctx ?s4 = Live"
    using st by simp
  from t [OF this] have "ServeDNS_v2 example_query (None, Some ErrUpstreamsFailed) =
        (Some ((SetReply new_Msg example_query)\<lparr>Rcode := RcodeServerFailure\<rparr>), Some ErrUpstreamsFailed)"
    by simp
  with st v r4 show ?thesis by simp
qed


section \<open>Properties of NewListFormReader\<close>

text \<open>
  With \<^verbatim>\<open>continueOnInvalidString\<close> set, the list returned holds the FQDN form of every
  line that is not skipped, valid or not. Without it, the first line that is neither
  skipped nor valid ends the call with an error that carries the line and its number.
\<close>

lemma NewListFormReader_loop_continue:
  "map_sum id fst (NewListFormReader_loop Fqdn IsDomainName True n l w lines)
     = Inr (l @ map (\<lambda>text. Fqdn (TrimSpace text)) (filter (\<lambda>text. \<not> ignored_line text) lines))"
  by (induction lines arbitrary: n l w) (simp_all add: Let_def ignored_line_def List_Add_def)

lemma NewListFormReader_continue_adds_every_line:
  "map_sum id fst (NewListFormReader Fqdn IsDomainName lines True)
     = Inr (map (\<lambda>text. Fqdn (TrimSpace text)) (filter (\<lambda>text. \<not> ignored_line text) lines))"
  by (simp add: NewListFormReader_def NewListFormReader_loop_continue List_New_def)

lemma NewListFormReader_loop_first_invalid:
  assumes "list_all (\<lambda>text. ignored_line text \<or> IsDomainName (Fqdn (TrimSpace text))) pre"
      and "\<not> ignored_line text" and "\<not> IsDomainName (Fqdn (TrimSpace text))"
  shows "NewListFormReader_loop Fqdn IsDomainName False n l w (pre @ text # post)
           = Inl (ErrInvalidDomain (TrimSpace text) (n + length pre + 1))"
  using assms
  by (induction pre arbitrary: n l w) (auto simp: Let_def ignored_line_def)

lemma NewListFormReader_fatal_on_first_invalid:
  assumes "list_all (\<lambda>text. ignored_line text \<or> IsDomainName (Fqdn (TrimSpace text))) pre"
      and "\<not> ignored_line text" and "\<not> IsDomainName (Fqdn (TrimSpace text))"
  shows "NewListFormReader Fqdn IsDomainName (pre @ text # post) False
           = Inl (ErrInvalidDomain (TrimSpace text) (length pre + 1))"
  using assms
    NewListFormReader_loop_first_invalid [of IsDomainName Fqdn pre "text" 0 List_New "[]" post]
  by (simp add: NewListFormReader_def)

text \<open>
  Claim C7, evaluated on the code. With \<^verbatim>\<open>continueOnInvalidString\<close> set, a line that is
  neither empty nor a comment and whose name \<^verbatim>\<open>dns.IsDomainName\<close> rejects is logged in
  a warning and then added to the list all the same: after the warning the loop body goes
  on to \<^verbatim>\<open>l.Add(fqdn)\<close>.
\<close>

theorem NewListFormReader_adds_invalid_line:
  assumes "TrimSpace text \<noteq> []" and "\<not> HasPrefix (TrimSpace text) ''#''"
      and "\<not> IsDomainName (Fqdn (TrimSpace text))"
  shows "NewListFormReader Fqdn IsDomainName [text] True
           = Inr ([Fqdn (TrimSpace text)], [(TrimSpace text, 1)])"
  using assms
  by (simp add: NewListFormReader_def Let_def List_Add_def List_New_def)

text \<open>The claim at the line \<^verbatim>\<open>bad..name\<close> between two spaces.\<close>

theorem NewListFormReader_adds_invalid_line_witness:
  "\<not> example_IsDomainName (example_Fqdn (TrimSpace '' bad..name ''))  \<and>
   NewListFormReader example_Fqdn example_IsDomainName ['' bad..name ''] True
     = Inr ([''bad..name.''], [(''bad..name'', 1)])"
proof -
  have t: "TrimSpace '' bad..name '' = ''bad..name''"
    by code_simp
  have h: "\<not> HasPrefix ''bad..name'' ''#''"
    by (simp add: HasPrefix_def)
  have f: "example_Fqdn ''bad..name'' = ''bad..name.''"
    by (simp add: example_Fqdn_def)
  have i: "\<not> example_IsDomainName ''bad..name.''"
    by (simp add: example_IsDomainName_def)
  from NewListFormReader_adds_invalid_line [of " '' bad..name ''" example_IsDomainName example_Fqdn]
  show ?thesis using t h f i by simp
qed

section \<open>Properties of StartServer\<close>

lemma tcp_udp_disjoint: "n \<in> set tcp_networks \<Longrightarrow> n \<notin> set udp_networks"
  by (auto simp: tcp_networks_def udp_networks_def)

lemma StartServer_loop_ok:
  "list_all (bind_starts L LP) pre \<Longrightarrow>
   StartServer_loop L LP started (pre @ rest) = StartServer_loop L LP (started @ map bind_pair pre) rest"
proof (induction pre arbitrary: started)
  case Nil
  then show ?case by simp
next
  case (Cons s pre)
  from Cons.prems have s: "bind_starts L LP s" and p: "list_all (bind_starts L LP) pre" by simp_all
  from s have "StartServer_loop L LP started ((s # pre) @ rest)
      = StartServer_loop L LP (started @ [bind_pair s]) (pre @ rest)"
    by (auto simp: bind_starts_def bind_pair_def Let_def dest: tcp_udp_disjoint)
  also have "\<dots> = StartServer_loop L LP ((started @ [bind_pair s]) @ map bind_pair pre) rest"
    using p by (rule Cons.IH)
  finally show ?case by simp
qed

text \<open>
  Claim C10. \<^verbatim>\<open>StartServer\<close> never returns nil. With an empty bind list it returns "no
  address to bind". When the bind strings before \<open>s\<close> all start their servers, it returns
  "invalid bind address" for an \<open>s\<close> that \<^verbatim>\<open>://\<close> does not split in two, "invalid bind
  protocol" for an \<open>s\<close> whose network is not one of the six, and the error of
  \<^verbatim>\<open>net.Listen\<close> or \<^verbatim>\<open>net.ListenPacket\<close> when listening fails. When every bind string
  starts its server, it blocks until a listener returns, and then returns that listener's
  error wrapped in "server listener failed and exited".
\<close>

theorem StartServer_always_error:
  "StartServer L LP fe Bind \<noteq> Returns None \<and>
   (Bind = [] \<longrightarrow> StartServer L LP fe Bind = Returns (Some (Errorf ''no address to bind'' None))) \<and>
   (\<forall>pre s post. Bind = pre @ s # post \<and> list_all (bind_starts L LP) pre \<and>
        length (Split s ''://'') \<noteq> 2 \<longrightarrow>
      StartServer L LP fe Bind = Returns (Some (Errorf (''invalid bind address: '' @ s) None))) \<and>
   (\<forall>pre s post. Bind = pre @ s # post \<and> list_all (bind_starts L LP) pre \<and>
        length (Split s ''://'') = 2 \<and> Split s ''://'' ! 0 \<notin> set tcp_networks \<and>
        Split s ''://'' ! 0 \<notin> set udp_networks \<longrightarrow>
      StartServer L LP fe Bind =
        Returns (Some (Errorf (''invalid bind protocol: '' @ Split s ''://'' ! 0) None))) \<and>
   (\<forall>pre s post err. Bind = pre @ s # post \<and> list_all (bind_starts L LP) pre \<and>
        length (Split s ''://'') = 2 \<and>
        ((Split s ''://'' ! 0 \<in> set tcp_networks \<and>
          L (Split s ''://'' ! 0) (Split s ''://'' ! 1) = Some err) \<or>
         (Split s ''://'' ! 0 \<in> set udp_networks \<and>
          LP (Split s ''://'' ! 0) (Split s ''://'' ! 1) = Some err)) \<longrightarrow>
      StartServer L LP fe Bind = Returns (Some err)) \<and>
   (Bind \<noteq> [] \<and> list_all (bind_starts L LP) Bind \<longrightarrow>
      StartServer L LP fe Bind =
        (case fe (map bind_pair Bind) of
           None \<Rightarrow> Blocks
         | Some listenerErr \<Rightarrow> Returns (Some (Errorf ''server listener failed and exited: '' listenerErr))))"
proof -
  have a: "StartServer L LP fe Bind \<noteq> Returns None"
    by (simp add: StartServer_def split: sum.splits option.splits)
  have b: "Bind = [] \<longrightarrow> StartServer L LP fe Bind = Returns (Some (Errorf ''no address to bind'' None))"
    by (simp add: StartServer_def)
  have pre: "StartServer_loop L LP [] (pre @ s # post) = StartServer_loop L LP (map bind_pair pre) (s # post)"
    if "list_all (bind_starts L LP) pre" for pre s post
    using StartServer_loop_ok [OF that, of "[]" "s # post"] by simp
  have c: "StartServer L LP fe Bind = Returns (Some (Errorf (''invalid bind address: '' @ s) None))"
    if "Bind = pre @ s # post" "list_all (bind_starts L LP) pre" "length (Split s ''://'') \<noteq> 2"
    for pre s post
    using that pre [OF that(2), of s post] by (simp add: StartServer_def Let_def)
  have d: "StartServer L LP fe Bind =
        Returns (Some (Errorf (''invalid bind protocol: '' @ Split s ''://'' ! 0) None))"
    if "Bind = pre @ s # post" "list_all (bind_starts L LP) pre" "length (Split s ''://'') = 2"
       "Split s ''://'' ! 0 \<notin> set tcp_networks" "Split s ''://'' ! 0 \<notin> set udp_networks"
    for pre s post
    using that pre [OF that(2), of s post] by (simp add: StartServer_def Let_def)
  have e: "StartServer L LP fe Bind = Returns (Some err)"
    if "Bind = pre @ s # post" "list_all (bind_starts L LP) pre" "length (Split s ''://'') = 2"
       "(Split s ''://'' ! 0 \<in> set tcp_networks \<and>
          L (Split s ''://'' ! 0) (Split s ''://'' ! 1) = Some err) \<or>
         (Split s ''://'' ! 0 \<in> set udp_networks \<and>
          LP (Split s ''://'' ! 0) (Split s ''://'' ! 1) = Some err)"
    for pre s post err
    using that pre [OF that(2), of s post]
    by (auto simp: StartServer_def Let_def dest: tcp_udp_disjoint)
  have f: "Bind \<noteq> [] \<and> list_all (bind_starts L LP) Bind \<longrightarrow>
      StartServer L LP fe Bind =
        (case fe (map bind_pair Bind) of
           None \<Rightarrow> Blocks
         | Some listenerErr \<Rightarrow> Returns (Some (Errorf ''server listener failed and exited: '' listenerErr)))"
    using StartServer_loop_ok [of L LP Bind "[]" "[]"]
    by (simp add: StartServer_def)
  show ?thesis
    using a b c d e f by blast
qed


text \<open>The claim at bind lists of two entries, one run for each way out.\<close>

theorem StartServer_always_error_witness:
  "StartServer (\<lambda>network addr. None) (\<lambda>network addr. None) (\<lambda>started. None) [''udp://:53'', ''tcp:53'']
     = Returns (Some (Errorf ''invalid bind address: tcp:53'' None)) \<and>
   StartServer (\<lambda>network addr. None) (\<lambda>network addr. None) (\<lambda>started. None) [''udp://:53'', ''quic://:53'']
     = Returns (Some (Errorf ''invalid bind protocol: quic'' None)) \<and>
   StartServer (\<lambda>network addr. Some (OtherError ''address already in use'')) (\<lambda>network addr. None)
       (\<lambda>started. None) [''udp://:53'', ''tcp://:53'']
     = Returns (Some (OtherError ''address already in use'')) \<and>
   StartServer (\<lambda>network addr. None) (\<lambda>network addr. None) (\<lambda>started. None) [''udp://:53'', ''tcp://:53'']
     = Blocks \<and>
   StartServer (\<lambda>network addr. None) (\<lambda>network addr. None)
       (\<lambda>started. if started = [(''udp'', '':53''), (''tcp'', '':53'')] then Some (Some (OtherError ''closed'')) else None)
       [''udp://:53'', ''tcp://:53'']
     = Returns (Some (Errorf ''server listener failed and exited: '' (Some (OtherError ''closed''))))"
proof -
  have u: "Split ''udp://:53'' ''://'' = [''udp'', '':53'']"
    and t: "Split ''tcp://:53'' ''://'' = [''tcp'', '':53'']"
    and q: "Split ''quic://:53'' ''://'' = [''quic'', '':53'']"
    and x: "Split ''tcp:53'' ''://'' = [''tcp:53'']"
    by (simp_all add: Split_def)
  have ok: "bind_starts (\<lambda>network addr. None) (\<lambda>network addr. None) ''udp://:53''"
      "bind_starts (\<lambda>network addr. None) (\<lambda>network addr. None) ''tcp://:53''"
      "bind_starts (\<lambda>network addr. Some (OtherError ''address already in use'')) (\<lambda>network addr. None) ''udp://:53''"
    by (simp_all add: bind_starts_def u t udp_networks_def tcp_networks_def)
  have p: "bind_pair ''udp://:53'' = (''udp'', '':53'')" "bind_pair ''tcp://:53'' = (''tcp'', '':53'')"
    by (simp_all add: bind_pair_def u t)
  note th = StartServer_always_error
  have 1: "StartServer (\<lambda>network addr. None) (\<lambda>network addr. None) (\<lambda>started. None) [''udp://:53'', ''tcp:53'']
     = Returns (Some (Errorf ''invalid bind address: tcp:53'' None))"
    using th [of "\<lambda>network addr. None" "\<lambda>network addr. None" "\<lambda>started. None" "[''udp://:53'', ''tcp:53'']",
        THEN conjunct2, THEN conjunct2, THEN conjunct1, rule_format, of "[''udp://:53'']" "''tcp:53''" "[]"]
      ok x by simp
  have 2: "StartServer (\<lambda>network addr. None) (\<lambda>network addr. None) (\<lambda>started. None) [''udp://:53'', ''quic://:53'']
     = Returns (Some (Errorf ''invalid bind protocol: quic'' None))"
    using th [of "\<lambda>network addr. None" "\<lambda>network addr. None" "\<lambda>started. None" "[''udp://:53'', ''quic://:53'']",
        THEN conjunct2, THEN conjunct2, THEN conjunct2, THEN conjunct1, rule_format,
        of "[''udp://:53'']" "''quic://:53''" "[]"]
      ok q by (simp add: udp_networks_def tcp_networks_def)
  have 3: "StartServer (\<lambda>network addr. Some (OtherError ''address already in use'')) (\<lambda>network addr. None)
       (\<lambda>started. None) [''udp://:53'', ''tcp://:53'']
     = Returns (Some (OtherError ''address already in use''))"
    using th [of "\<lambda>network addr. Some (OtherError ''address already in use'')" "\<lambda>network addr. None"
        "\<lambda>started. None" "[''udp://:53'', ''tcp://:53'']",
        THEN conjunct2, THEN conjunct2, THEN conjunct2, THEN conjunct2, THEN conjunct1, rule_format,
        of "[''udp://:53'']" "''tcp://:53''" "[]" "OtherError ''address already in use''"]
      ok t by (simp add: udp_networks_def tcp_networks_def)
  have 4: "StartServer (\<lambda>network addr. None) (\<lambda>network addr. None) (\<lambda>started. None) [''udp://:53'', ''tcp://:53'']
     = Blocks"
    using th [of "\<lambda>network addr. None" "\<lambda>network addr. None" "\<lambda>started. None" "[''udp://:53'', ''tcp://:53'']",
        THEN conjunct2, THEN conjunct2, THEN conjunct2, THEN conjunct2, THEN conjunct2]
      ok by simp
  have 5: "StartServer (\<lambda>network addr. None) (\<lambda>network addr. None)
       (\<lambda>started. if started = [(''udp'', '':53''), (''tcp'', '':53'')] then Some (Some (OtherError ''closed'')) else None)
       [''udp://:53'', ''tcp://:53'']
     = Returns (Some (Errorf ''server listener failed and exited: '' (Some (OtherError ''closed''))))"
    using th [of "\<lambda>network addr. None" "\<lambda>network addr. None"
        "\<lambda>started. if started = [(''udp'', '':53''), (''tcp'', '':53'')] then Some (Some (OtherError ''closed'')) else None"
        "[''udp://:53'', ''tcp://:53'']",
        THEN conjunct2, THEN conjunct2, THEN conjunct2, THEN conjunct2, THEN conjunct2]
      ok p by simp
  show ?thesis using 1 2 3 4 5 by blast
qed


end
